theory Spec2Isabelle
  imports Complex_Main "HOL-Library.Word"
begin

section \<open>The live voice session of App.tsx\<close>

text \<open>
  The voice session lives in three functions of the \<open>App\<close> component:
  \<open>stopLiveSession\<close> (lines 159-166), \<open>startLiveSession\<close> (lines 168-202) with the
  callbacks it hands to \<open>vulcanService.connectLive\<close> (\<open>onopen\<close>, \<open>onmessage\<close>,
  \<open>onclose\<close>, \<open>onerror\<close>) and the capture callback \<open>onaudioprocess\<close>, and the toggle
  of line 290. Every one of them runs on the single JavaScript thread, so the component is
  modelled as a state record and one function per uninterrupted run of a callback. The
  \<open>async\<close> handler \<open>onmessage\<close> has an \<open>await\<close> in its body: it is two such runs, the
  one up to the \<open>await\<close> and the one after it, and other callbacks may run in between.
\<close>

subsection \<open>Inbound transport messages\<close>

text \<open>
  \<open>onmessage\<close> reads \<open>msg.serverContent?.modelTurn?.parts[0]?.inlineData?.data\<close>,
  \<open>msg.serverContent?.inputTranscription\<close> and \<open>msg.serverContent?.outputTranscription\<close>.
  Each \<open>?.\<close> of the source is an \<open>option\<close> here; \<open>parts\<close> is indexed without one, so
  it is a list (an array, as the transport delivers it).
\<close>

record inline_data =
  data :: "string option"

record part =
  inlineData :: "inline_data option"

record model_turn =
  parts :: "part list"

record transcription =
  transcript_text :: string

record server_content =
  modelTurn :: "model_turn option"
  inputTranscription :: "transcription option"
  outputTranscription :: "transcription option"

record message =
  serverContent :: "server_content option"

subsection \<open>The component's state\<close>

datatype context_state = Suspended | Running

datatype session = SessionOpen | SessionClosed

datatype error = GetUserMediaError | ResumeError

datatype outcome = Fulfilled | Rejected error

text \<open>A JavaScript number holding a volume: \<open>0/0\<close> is \<open>NaN\<close>.\<close>

datatype number = NaN | Num real

text \<open>\<open>transcriptions\<close> of line 30: the fields \<open>input\<close> and \<open>output\<close>.\<close>

record transcripts =
  inputText :: string
  outputText :: string

text \<open>
  The first seven fields are the refs and the React state of the component
  (lines 27-30 and 49-51). Playback nodes are numbered in the order
  \<open>createBufferSource\<close> makes them. The remaining fields record what the component asked
  of the browser and of the transport: the nodes started (node, start time, duration of
  its buffer), the nodes stopped, the microphone streams acquired, the transport
  connections opened, and the errors written with \<open>console.error\<close>. The last field
  holds the messages whose handler is suspended at the \<open>await\<close> of line 182, in the
  order of their arrival.
\<close>

record app_state =
  audioContextRef :: "context_state option"
  liveSessionRef :: "session option"
  audioSourcesRef :: "nat list"
  isLiveActive :: bool
  isModelSpeaking :: bool
  userVolume :: number
  transcriptions :: transcripts
  nodesCreated :: nat
  started :: "(nat \<times> real \<times> real) list"
  stopped :: "nat list"
  micStreams :: nat
  connections :: nat
  console :: "error list"
  decoding :: "message list"

definition init_state :: app_state where
  "init_state = \<lparr> audioContextRef = None, liveSessionRef = None, audioSourcesRef = [],
     isLiveActive = False, isModelSpeaking = False, userVolume = Num 0,
     transcriptions = \<lparr> inputText = [], outputText = [] \<rparr>,
     nodesCreated = 0, started = [], stopped = [], micStreams = 0, connections = 0,
     console = [], decoding = [] \<rparr>"

subsection \<open>The set of playback nodes\<close>

text \<open>
  \<open>audioSourcesRef.current\<close> is a JavaScript \<open>Set\<close>: insertion ordered, without
  duplicates. \<open>add\<close> of a member changes nothing; \<open>delete\<close> of a non-member changes
  nothing.
\<close>

definition set_add :: "nat \<Rightarrow> nat list \<Rightarrow> nat list" where
  "set_add n xs = (if n \<in> set xs then xs else xs @ [n])"

definition set_delete :: "nat \<Rightarrow> nat list \<Rightarrow> nat list" where
  "set_delete n xs = removeAll n xs"

subsection \<open>onmessage (lines 178-190)\<close>

definition audio_of :: "message \<Rightarrow> string option" where
  "audio_of msg =
     (case serverContent msg of
        None \<Rightarrow> None
      | Some sc \<Rightarrow>
          (case modelTurn sc of
             None \<Rightarrow> None
           | Some mt \<Rightarrow>
               (case parts mt of
                  [] \<Rightarrow> None
                | p # _ \<Rightarrow>
                    (case inlineData p of
                       None \<Rightarrow> None
                     | Some d \<Rightarrow> data d))))"

definition input_of :: "message \<Rightarrow> transcription option" where
  "input_of msg =
     (case serverContent msg of None \<Rightarrow> None | Some sc \<Rightarrow> inputTranscription sc)"

definition output_of :: "message \<Rightarrow> transcription option" where
  "output_of msg =
     (case serverContent msg of None \<Rightarrow> None | Some sc \<Rightarrow> outputTranscription sc)"

text \<open>The audio payload of a message as \<open>onmessage\<close> tests it: present and not empty.\<close>

definition has_audio :: "message \<Rightarrow> bool" where
  "has_audio msg = (case audio_of msg of None \<Rightarrow> False | Some audio \<Rightarrow> audio \<noteq> [])"

definition audio_string :: "message \<Rightarrow> string" where
  "audio_string msg = (case audio_of msg of None \<Rightarrow> [] | Some audio \<Rightarrow> audio)"

definition set_input :: "transcription \<Rightarrow> app_state \<Rightarrow> app_state" where
  "set_input t s =
     s\<lparr> transcriptions := (transcriptions s)\<lparr> inputText := transcript_text t \<rparr> \<rparr>"

definition add_output :: "transcription \<Rightarrow> app_state \<Rightarrow> app_state" where
  "add_output t s =
     s\<lparr> transcriptions :=
          (transcriptions s)\<lparr> outputText := outputText (transcriptions s) @ transcript_text t \<rparr> \<rparr>"

text \<open>Lines 188-189, the last two statements of the handler.\<close>

definition transcript_updates :: "message \<Rightarrow> app_state \<Rightarrow> app_state" where
  "transcript_updates msg s =
     (let s1 = (case input_of msg of None \<Rightarrow> s | Some t \<Rightarrow> set_input t s);
          s2 = (case output_of msg of None \<Rightarrow> s1 | Some t \<Rightarrow> add_output t s1)
      in s2)"

text \<open>
  The call of the handler, up to its first suspension or to its end.
  \<open>if (audio && audioContextRef.current)\<close>: the empty string is falsy, \<open>null\<close> is falsy.
  When the test holds, line 181 sets the speaking flag and line 182 suspends the handler
  at \<open>await decodeAudioData(decodePCM(audio), ...)\<close>; nothing after line 182 has run yet.
  When it fails, lines 188-189 run at once.
\<close>

definition onmessage :: "app_state \<Rightarrow> message \<Rightarrow> app_state" where
  "onmessage s msg =
     (case audio_of msg of
        None \<Rightarrow> transcript_updates msg s
      | Some audio \<Rightarrow>
          if audio \<noteq> [] \<and> audioContextRef s \<noteq> None
          then s\<lparr> isModelSpeaking := True, decoding := decoding s @ [msg] \<rparr>
          else transcript_updates msg s)"

text \<open>
  Lines 183-186: \<open>createBufferSource\<close>, \<open>node.start()\<close>, \<open>audioSourcesRef.current.add(node)\<close>
  for a decoded buffer of duration \<open>d\<close>. \<open>node.start()\<close> is called without a start time:
  the node plays from the context's current time, \<open>now\<close>.
\<close>

definition play_audio :: "real \<Rightarrow> real \<Rightarrow> app_state \<Rightarrow> app_state" where
  "play_audio d now s =
     (let node = nodesCreated s in
      s\<lparr> nodesCreated := Suc node,
         started := started s @ [(node, now, d)],
         audioSourcesRef := set_add node (audioSourcesRef s) \<rparr>)"

text \<open>
  The rest of the handler, run when the \<open>await\<close> of the \<open>i\<close>-th suspended handler
  returns. \<open>decodePCM\<close> and \<open>decodeAudioData\<close> belong to \<open>services/geminiService\<close>, which
  is not among the sources, so what they deliver is the parameter \<open>dur\<close>: the duration of
  the decoded buffer, or \<open>None\<close> when they throw (for the specification, on a malformed
  frame). A throw ends the handler at line 182: the \<open>async\<close> function has no \<open>try\<close>, its
  promise is rejected and lines 183-189 do not run. So does \<open>createBufferSource\<close> on a
  \<open>null\<close> context.
\<close>

definition onmessage_resumed ::
    "(string \<Rightarrow> real option) \<Rightarrow> nat \<Rightarrow> real \<Rightarrow> app_state \<Rightarrow> app_state" where
  "onmessage_resumed dur i now s =
     (if i < length (decoding s)
      then
        let msg = decoding s ! i;
            s1 = s\<lparr> decoding := take i (decoding s) @ drop (Suc i) (decoding s) \<rparr>
        in (case dur (audio_string msg) of
              None \<Rightarrow> s1
            | Some d \<Rightarrow>
                if audioContextRef s1 = None then s1
                else transcript_updates msg (play_audio d now s1))
      else s)"

text \<open>\<open>node.onended\<close> (line 185).\<close>

definition onended :: "nat \<Rightarrow> app_state \<Rightarrow> app_state" where
  "onended node s =
     (let s1 = s\<lparr> audioSourcesRef := set_delete node (audioSourcesRef s) \<rparr>
      in if length (audioSourcesRef s1) = 0 then s1\<lparr> isModelSpeaking := False \<rparr> else s1)"

subsection \<open>stopLiveSession (lines 159-166)\<close>

text \<open>
  \<open>s.stop()\<close> sits in a \<open>try\<close> whose \<open>catch\<close> is empty, so the loop has no failing branch.
  The function does not touch \<open>userVolume\<close>, the microphone stream or the capture graph.
\<close>

definition stopLiveSession :: "app_state \<Rightarrow> app_state" where
  "stopLiveSession s =
     (let s1 = (case liveSessionRef s of
                  None \<Rightarrow> s
                | Some _ \<Rightarrow> s\<lparr> liveSessionRef := Some SessionClosed \<rparr>);
          s2 = s1\<lparr> stopped := stopped s1 @ audioSourcesRef s1 \<rparr>;
          s3 = s2\<lparr> audioSourcesRef := [] \<rparr>;
          s4 = s3\<lparr> isLiveActive := False \<rparr>;
          s5 = s4\<lparr> isModelSpeaking := False \<rparr>
      in s5\<lparr> transcriptions := \<lparr> inputText = [], outputText = [] \<rparr> \<rparr>)"

subsection \<open>startLiveSession (lines 168-202)\<close>

text \<open>
  What the browser answers is the environment of a call: the state a new
  \<open>AudioContext\<close> is created in, whether \<open>resume()\<close> succeeds, and whether
  \<open>getUserMedia\<close> delivers a stream.
\<close>

record env =
  newContextState :: context_state
  resumeOk :: bool
  micOk :: bool

text \<open>
  The body is one \<open>try\<close> block; its \<open>catch\<close> (line 201) logs the error and calls
  \<open>setIsLiveActive(false)\<close>, so the promise of the \<open>async\<close> function is always fulfilled.
  There is no test of \<open>isLiveActive\<close> or of any other session state, and
  \<open>liveSessionRef.current\<close> is not assigned.
\<close>

definition catch_error :: "error \<Rightarrow> app_state \<Rightarrow> outcome \<times> app_state" where
  "catch_error e s = (Fulfilled, s\<lparr> console := console s @ [e], isLiveActive := False \<rparr>)"

definition startLiveSession :: "env \<Rightarrow> app_state \<Rightarrow> outcome \<times> app_state" where
  "startLiveSession e s =
     (let s1 = (if audioContextRef s = None
                then s\<lparr> audioContextRef := Some (newContextState e) \<rparr> else s)
      in if audioContextRef s1 = Some Suspended \<and> \<not> resumeOk e then catch_error ResumeError s1
         else
           let s2 = (if audioContextRef s1 = Some Suspended
                     then s1\<lparr> audioContextRef := Some Running \<rparr> else s1)
           in if \<not> micOk e then catch_error GetUserMediaError s2
              else (Fulfilled, s2\<lparr> micStreams := Suc (micStreams s2),
                                  connections := Suc (connections s2) \<rparr>))"

text \<open>\<open>onopen\<close> (line 177).\<close>

definition onopen :: "app_state \<Rightarrow> app_state" where
  "onopen s = s\<lparr> isLiveActive := True \<rparr>"

text \<open>The toggle of line 290: \<open>isLiveActive ? stopLiveSession() : startLiveSession()\<close>.\<close>

definition onToggleLive :: "env \<Rightarrow> app_state \<Rightarrow> outcome \<times> app_state" where
  "onToggleLive e s =
     (if isLiveActive s then (Fulfilled, stopLiveSession s) else startLiveSession e s)"

subsection \<open>onaudioprocess (lines 193-200)\<close>

text \<open>
  A sample of the capture block is a 32-bit float, that is a rational number, and
  \<open>data[i] * 32768\<close> is a multiplication by a power of two, which is exact in double
  precision; so samples are \<^typ>\<open>real\<close> here and the product is the real product.
  Storing a number in an \<open>Int16Array\<close> applies the language's \<open>ToInt16\<close>: drop the
  fraction (towards zero), then keep the low 16 bits, read as two's complement.
\<close>

type_synonym int16 = "16 word"

definition js_truncate :: "real \<Rightarrow> int" where
  "js_truncate v = (if v < 0 then \<lceil>v\<rceil> else \<lfloor>v\<rfloor>)"

definition ToInt16 :: "real \<Rightarrow> int16" where
  "ToInt16 v = word_of_int (js_truncate v)"

definition sample_to_int16 :: "real \<Rightarrow> int16" where
  "sample_to_int16 x = ToInt16 (x * 32768)"

definition capture_block :: "real list \<Rightarrow> int16 list" where
  "capture_block xs = map sample_to_int16 xs"

text \<open>
  \<open>let sum = 0; for (...) sum += data[i]*data[i]; Math.sqrt(sum/data.length)\<close>.
  The sum and the root are taken over the reals. The script processor is created with
  4096 samples a block; on an empty block the quotient is \<open>0/0\<close>.
\<close>

definition volume_of :: "real list \<Rightarrow> number" where
  "volume_of xs =
     (if length xs = 0 then NaN
      else Num (sqrt (foldl (\<lambda>sum x. sum + x * x) 0 xs / real (length xs))))"

text \<open>
  The handler sets the volume and passes the int16 block on to \<open>encodePCM\<close> and
  \<open>sendRealtimeInput\<close>; the block is the second component of the result.
\<close>

definition onaudioprocess :: "real list \<Rightarrow> app_state \<Rightarrow> app_state \<times> int16 list" where
  "onaudioprocess xs s = (s\<lparr> userVolume := volume_of xs \<rparr>, capture_block xs)"

subsection \<open>Event sequences\<close>

text \<open>
  One event is one uninterrupted run of a callback: a click on the toggle, a direct
  call of \<open>startLiveSession\<close>, the transport's \<open>onopen\<close>, the arrival of an inbound
  message, the return of the \<open>await\<close> of the \<open>i\<close>-th suspended message handler at context
  time \<open>now\<close>, the end of a playback node, a call of \<open>stopLiveSession\<close> (by the overlay's
  close button, or by the transport through \<open>onclose\<close> and \<open>onerror\<close>), and a capture
  block.
\<close>

datatype event =
    ToggleLive env
  | StartLive env
  | Open
  | Message message
  | Resume nat real
  | Ended nat
  | StopLive
  | AudioProcess "real list"

fun step :: "(string \<Rightarrow> real option) \<Rightarrow> app_state \<Rightarrow> event \<Rightarrow> app_state" where
  "step dur s (ToggleLive e) = snd (onToggleLive e s)"
| "step dur s (StartLive e) = snd (startLiveSession e s)"
| "step dur s Open = onopen s"
| "step dur s (Message msg) = onmessage s msg"
| "step dur s (Resume i now) = onmessage_resumed dur i now s"
| "step dur s (Ended node) = onended node s"
| "step dur s StopLive = stopLiveSession s"
| "step dur s (AudioProcess xs) = fst (onaudioprocess xs s)"

definition run :: "(string \<Rightarrow> real option) \<Rightarrow> app_state \<Rightarrow> event list \<Rightarrow> app_state" where
  "run dur s evs = foldl (step dur) s evs"

text \<open>
  Messages handled one after the other, each decoded before anything else happens: the
  message arrives, and the handler it suspends (the \<open>n\<close>-th, when \<open>n\<close> were suspended
  before) is resumed at time \<open>now\<close>.
\<close>

definition messages :: "nat \<Rightarrow> (real \<times> message) list \<Rightarrow> event list" where
  "messages n tms = concat (map (\<lambda>(now, msg). [Message msg, Resume n now]) tms)"

subsection \<open>Notions used by the properties\<close>

definition speaking_consistent :: "app_state \<Rightarrow> bool" where
  "speaking_consistent s = (isModelSpeaking s = (audioSourcesRef s \<noteq> []))"

text \<open>
  A started node \<open>(node, start, duration)\<close> plays over the half-open interval from
  \<open>start\<close> to \<open>start + duration\<close>.
\<close>

definition start_of :: "nat \<times> real \<times> real \<Rightarrow> real" where
  "start_of c = fst (snd c)"

definition end_of :: "nat \<times> real \<times> real \<Rightarrow> real" where
  "end_of c = fst (snd c) + snd (snd c)"

definition overlap :: "nat \<times> real \<times> real \<Rightarrow> nat \<times> real \<times> real \<Rightarrow> bool" where
  "overlap a b = (start_of a < end_of b \<and> start_of b < end_of a)"

text \<open>The nodes that a run of messages adds to the ones started before.\<close>

definition scheduled ::
    "(string \<Rightarrow> real option) \<Rightarrow> app_state \<Rightarrow> (real \<times> message) list \<Rightarrow> (nat \<times> real \<times> real) list" where
  "scheduled dur s tms =
     drop (length (started s))
       (started (run dur s (messages (length (decoding s)) tms)))"

text \<open>The messages of a run whose payload the decoder accepts, and the duration it gives.\<close>

definition decoded :: "(string \<Rightarrow> real option) \<Rightarrow> (real \<times> message) list \<Rightarrow> (real \<times> message) list" where
  "decoded dur tms = filter (\<lambda>(now, msg). dur (audio_string msg) \<noteq> None) tms"

definition duration_of :: "(string \<Rightarrow> real option) \<Rightarrow> message \<Rightarrow> real" where
  "duration_of dur msg = (case dur (audio_string msg) of None \<Rightarrow> 0 | Some d \<Rightarrow> d)"

definition no_transcripts :: transcripts where
  "no_transcripts = \<lparr> inputText = [], outputText = [] \<rparr>"

section \<open>The PCM codec\<close>

text \<open>
  Modelled from the spec: \<open>encodePCM\<close> and \<open>decodePCM\<close> are imported from
  \<open>services/geminiService\<close>, which is not among the sources. The specification gives
  the contract \<open>decode(bytes) -> sequence<int16>\<close>, \<open>encode(sequence<int16>) -> bytes\<close>,
  bit exact, without clamping or validation, and \<open>decode\<close> of an odd number of bytes
  fails with \<open>MalformedFrame\<close>. It does not fix the byte order, which is a parameter
  here (\<open>True\<close> for the high byte first).
\<close>

type_synonym byte = "8 word"

datatype codec_error = MalformedFrame

definition sample_of :: "bool \<Rightarrow> byte \<Rightarrow> byte \<Rightarrow> int16" where
  "sample_of big_endian b0 b1 = (if big_endian then word_cat b0 b1 else word_cat b1 b0)"

definition bytes_of :: "bool \<Rightarrow> int16 \<Rightarrow> byte list" where
  "bytes_of big_endian w =
     (let hi = ucast (drop_bit 8 w); lo = ucast w
      in if big_endian then [hi, lo] else [lo, hi])"

fun pairs :: "bool \<Rightarrow> byte list \<Rightarrow> int16 list" where
  "pairs be (b0 # b1 # bs) = sample_of be b0 b1 # pairs be bs"
| "pairs be _ = []"

text \<open>
  Modelled from the spec: \<open>decode\<close> of section 4.1, which fails with \<open>MalformedFrame\<close>
  on an odd number of bytes and otherwise reads one sample from every two bytes.
\<close>

definition decode :: "bool \<Rightarrow> byte list \<Rightarrow> codec_error + int16 list" where
  "decode be bs = (if odd (length bs) then Inl MalformedFrame else Inr (pairs be bs))"

text \<open>
  Modelled from the spec: \<open>encode\<close> of section 4.1, which writes the two bytes of
  every sample and clamps nothing.
\<close>

definition encode :: "bool \<Rightarrow> int16 list \<Rightarrow> byte list" where
  "encode be ws = concat (map (bytes_of be) ws)"

section \<open>Concrete sessions\<close>

definition mic_env :: env where
  "mic_env = \<lparr> newContextState = Running, resumeOk = True, micOk = True \<rparr>"

definition no_mic_env :: env where
  "no_mic_env = \<lparr> newContextState = Running, resumeOk = True, micOk = False \<rparr>"

text \<open>A decoder that makes a buffer of two seconds of every payload.\<close>

definition two_seconds :: "string \<Rightarrow> real option" where
  "two_seconds a = Some 2"

text \<open>
  A decoder that reads a payload of \<open>n\<close> bytes as \<open>n / 2\<close> samples at 24 kHz and throws
  on an odd \<open>n\<close>.
\<close>

definition pcm16_duration :: "string \<Rightarrow> real option" where
  "pcm16_duration a =
     (if odd (length a) then None else Some (real (length a div 2) / 24000))"

definition empty_message :: message where
  "empty_message =
     \<lparr> serverContent = Some \<lparr> modelTurn = None, inputTranscription = None,
                               outputTranscription = None \<rparr> \<rparr>"

definition audio_message :: "string \<Rightarrow> message" where
  "audio_message a =
     \<lparr> serverContent = Some
         \<lparr> modelTurn = Some \<lparr> parts = [\<lparr> inlineData = Some \<lparr> data = Some a \<rparr> \<rparr>] \<rparr>,
           inputTranscription = None, outputTranscription = None \<rparr> \<rparr>"

definition output_message :: "string \<Rightarrow> message" where
  "output_message t =
     \<lparr> serverContent = Some
         \<lparr> modelTurn = None, inputTranscription = None,
           outputTranscription = Some \<lparr> transcript_text = t \<rparr> \<rparr> \<rparr>"

text \<open>A message with an audio payload and an output transcription.\<close>

definition spoken_message :: "string \<Rightarrow> string \<Rightarrow> message" where
  "spoken_message a t =
     \<lparr> serverContent = Some
         \<lparr> modelTurn = Some \<lparr> parts = [\<lparr> inlineData = Some \<lparr> data = Some a \<rparr> \<rparr>] \<rparr>,
           inputTranscription = None,
           outputTranscription = Some \<lparr> transcript_text = t \<rparr> \<rparr> \<rparr>"

text \<open>After \<open>startLiveSession\<close> with a microphone: connecting. After \<open>onopen\<close>: active.\<close>

definition connecting_state :: app_state where
  "connecting_state = run two_seconds init_state [ToggleLive mic_env]"

definition active_state :: app_state where
  "active_state = run two_seconds init_state [ToggleLive mic_env, Open]"

text \<open>Two chunks of two seconds each, the second arriving one second after the first.\<close>

definition two_chunks :: "(nat \<times> real \<times> real) list" where
  "two_chunks = started (run two_seconds init_state
     [ToggleLive mic_env, Open,
      Message (audio_message ''AAAA''), Resume 0 0,
      Message (audio_message ''AAAA''), Resume 0 1])"

text \<open>
  An active session receives one audio message of three bytes, which the decoder
  rejects.
\<close>

definition after_malformed :: app_state where
  "after_malformed = run pcm16_duration init_state
     [ToggleLive mic_env, Open, Message (audio_message ''AAA''), Resume 0 0]"

text \<open>
  An active session receives one audio message of four bytes; the session is stopped
  while the payload is being decoded; then the decoder returns.
\<close>

definition stopped_while_decoding :: app_state where
  "stopped_while_decoding = run pcm16_duration init_state
     [ToggleLive mic_env, Open, Message (audio_message ''AAAA''), StopLive, Resume 0 0]"

text \<open>
  A session with one capture block of 4096 samples at full scale, ended by a transport
  error (\<open>onerror\<close> is \<open>stopLiveSession\<close>, line 191).
\<close>

definition after_error :: app_state where
  "after_error = run two_seconds init_state
     [ToggleLive mic_env, Open, AudioProcess (replicate 4096 1), StopLive]"

text \<open>
  A session closed from the overlay, a message that still arrives, and the next start.
\<close>

definition restarted :: app_state where
  "restarted = run two_seconds init_state
     [ToggleLive mic_env, Open, ToggleLive mic_env, Message (output_message ''late''),
      ToggleLive mic_env]"

section \<open>Evaluating concrete sessions\<close>

lemmas session_defs = run_def init_state_def mic_env_def no_mic_env_def onToggleLive_def
  startLiveSession_def stopLiveSession_def catch_error_def onopen_def onmessage_def
  onmessage_resumed_def transcript_updates_def audio_string_def
  audio_of_def input_of_def output_of_def play_audio_def set_add_def set_input_def
  add_output_def onaudioprocess_def audio_message_def output_message_def
  spoken_message_def two_seconds_def pcm16_duration_def Let_def

lemma connecting_state_eq:
  "connecting_state =
     init_state\<lparr> audioContextRef := Some Running, micStreams := 1, connections := 1 \<rparr>"
  by (simp add: connecting_state_def session_defs)

lemma active_state_eq:
  "active_state =
     init_state\<lparr> audioContextRef := Some Running, micStreams := 1, connections := 1,
                 isLiveActive := True \<rparr>"
  by (simp add: active_state_def session_defs)

section \<open>Messages without payload\<close>

text \<open>
  C10. A message with no audio data (absent, or the empty string), no input
  transcription and no output transcription leaves the whole component state as it was:
  the speaking flag, the set of playback nodes and both transcript buffers included.
  Its handler is not suspended, so this is all the message does.
\<close>

theorem onmessage_plain:
  "\<not> has_audio msg \<Longrightarrow> input_of msg = None \<Longrightarrow> output_of msg = None \<Longrightarrow>
   onmessage s msg = s"
  by (auto simp: onmessage_def transcript_updates_def has_audio_def split: option.splits)

theorem onmessage_plain_witness:
  "\<not> has_audio empty_message \<and> input_of empty_message = None \<and>
   output_of empty_message = None \<and>
   onmessage active_state empty_message = active_state"
  using onmessage_plain [of empty_message active_state]
  by (simp add: empty_message_def has_audio_def audio_of_def input_of_def output_of_def)

section \<open>The speaking flag\<close>

text \<open>
  Every callback but the message handler keeps the speaking flag and the set of
  playback nodes in step.
\<close>

lemma other_callbacks_consistent:
  "speaking_consistent s \<Longrightarrow>
   speaking_consistent (onended node s) \<and>
   speaking_consistent (stopLiveSession s) \<and>
   speaking_consistent (snd (startLiveSession e s)) \<and>
   speaking_consistent (onopen s) \<and>
   speaking_consistent (fst (onaudioprocess xs s))"
  by (auto simp: speaking_consistent_def stopLiveSession_def startLiveSession_def
      catch_error_def Let_def onopen_def onended_def set_delete_def onaudioprocess_def
      split: option.splits if_splits)

text \<open>A message handled without interruption and decoded keeps them in step as well.\<close>

lemma decoded_message_consistent:
  "audioContextRef s \<noteq> None \<Longrightarrow> has_audio msg \<Longrightarrow> dur (audio_string msg) = Some d \<Longrightarrow>
   speaking_consistent
     (onmessage_resumed dur (length (decoding s)) now (onmessage s msg))"
  by (auto simp: speaking_consistent_def onmessage_def onmessage_resumed_def
      transcript_updates_def play_audio_def set_input_def add_output_def set_add_def
      has_audio_def audio_string_def Let_def nth_append split: option.splits)

text \<open>
  C2 does not hold of the message handler. Line 181 sets the speaking flag before the
  \<open>await\<close> of line 182, and line 186 adds the node after it. When the decoder throws,
  the flag stays true and the set of playback nodes stays empty. When the session is
  stopped during the \<open>await\<close>, the node is started and added after the stop: the set is
  not empty, the flag is false, and the node was not stopped.
\<close>

theorem speaking_flag_diverges:
  "isModelSpeaking after_malformed \<and> audioSourcesRef after_malformed = [] \<and>
   decoding after_malformed = [] \<and>
   \<not> speaking_consistent after_malformed \<and>
   \<not> isModelSpeaking stopped_while_decoding \<and>
   audioSourcesRef stopped_while_decoding = [0] \<and>
   stopped stopped_while_decoding = [] \<and>
   \<not> speaking_consistent stopped_while_decoding"
  by (simp add: after_malformed_def stopped_while_decoding_def speaking_consistent_def
      session_defs)

section \<open>Scheduling of playback\<close>

lemma handled_message:
  assumes "audioContextRef s \<noteq> None" and "has_audio msg"
  shows "started (onmessage_resumed dur (length (decoding s)) now (onmessage s msg)) =
      started s @ (case dur (audio_string msg) of
                     None \<Rightarrow> []
                   | Some d \<Rightarrow> [(nodesCreated s, now, d)]) \<and>
    nodesCreated (onmessage_resumed dur (length (decoding s)) now (onmessage s msg)) =
      (case dur (audio_string msg) of
         None \<Rightarrow> nodesCreated s
       | Some d \<Rightarrow> Suc (nodesCreated s)) \<and>
    audioContextRef (onmessage_resumed dur (length (decoding s)) now (onmessage s msg)) =
      audioContextRef s \<and>
    decoding (onmessage_resumed dur (length (decoding s)) now (onmessage s msg)) =
      decoding s"
  using assms
  by (auto simp: onmessage_def onmessage_resumed_def transcript_updates_def play_audio_def
      set_input_def add_output_def has_audio_def audio_string_def Let_def nth_append
      split: option.splits)

lemma run_started:
  "audioContextRef s \<noteq> None \<Longrightarrow> list_all (\<lambda>(now, msg). has_audio msg) tms \<Longrightarrow>
   started (run dur s (messages (length (decoding s)) tms)) =
     started s @ map (\<lambda>(node, now, msg). (node, now, duration_of dur msg))
                   (enumerate (nodesCreated s) (decoded dur tms))"
proof (induction tms arbitrary: s)
  case Nil
  then show ?case by (simp add: run_def messages_def decoded_def)
next
  case (Cons tm tms)
  obtain now msg where tm: "tm = (now, msg)" by (cases tm)
  let ?n = "length (decoding s)"
  let ?s = "onmessage_resumed dur ?n now (onmessage s msg)"
  from Cons.prems tm have a: "has_audio msg"
    and r: "list_all (\<lambda>(now, msg). has_audio msg) tms" by auto
  note h = handled_message [OF Cons.prems(1) a, of dur now]
  from h Cons.prems(1) have c: "audioContextRef ?s \<noteq> None" by simp
  from h have n: "length (decoding ?s) = ?n" by simp
  have "run dur s (messages ?n (tm # tms)) = run dur ?s (messages ?n tms)"
    by (simp add: run_def messages_def tm)
  with Cons.IH [OF c r] n
  have "started (run dur s (messages ?n (tm # tms))) =
      started ?s @ map (\<lambda>(node, now, msg). (node, now, duration_of dur msg))
                    (enumerate (nodesCreated ?s) (decoded dur tms))"
    by simp
  with h show ?case
    by (cases "dur (audio_string msg)") (simp_all add: tm decoded_def duration_of_def)
qed

lemma scheduled_eq:
  "audioContextRef s \<noteq> None \<Longrightarrow> list_all (\<lambda>(now, msg). has_audio msg) tms \<Longrightarrow>
   scheduled dur s tms =
     map (\<lambda>(node, now, msg). (node, now, duration_of dur msg))
       (enumerate (nodesCreated s) (decoded dur tms))"
  by (simp add: scheduled_def run_started)

lemma starts_enumerate:
  "map start_of (map (\<lambda>(node, now, msg). (node, now, d msg)) (enumerate n tms)) =
   map fst tms"
  by (induction tms arbitrary: n) (auto simp: start_of_def)

text \<open>
  C1, as the code has it. With a playback context present, every chunk of a run of audio
  messages that is enqueued (its payload decoded) is started at the context time at
  which its handler resumes and calls \<open>node.start()\<close>, whatever the end of the chunk
  before it. So, for two consecutive chunks enqueued in order, the later one of positive
  duration, the play intervals overlap exactly when the later chunk arrives before the
  earlier one ends.
\<close>

theorem chunks_start_on_arrival:
  assumes "audioContextRef s \<noteq> None"
    and "list_all (\<lambda>(now, msg). has_audio msg) tms"
  shows "map start_of (scheduled dur s tms) = map fst (decoded dur tms) \<and>
    (\<forall>i. Suc i < length (decoded dur tms) \<and>
         fst (decoded dur tms ! i) \<le> fst (decoded dur tms ! Suc i) \<and>
         0 < duration_of dur (snd (decoded dur tms ! Suc i)) \<longrightarrow>
       overlap (scheduled dur s tms ! i) (scheduled dur s tms ! Suc i) =
         (fst (decoded dur tms ! Suc i) < end_of (scheduled dur s tms ! i)))"
proof -
  let ?ds = "decoded dur tms"
  note eq = scheduled_eq [OF assms, of dur]
  have st: "map start_of (scheduled dur s tms) = map fst ?ds"
    unfolding eq by (rule starts_enumerate)
  have nth: "start_of (scheduled dur s tms ! i) = fst (?ds ! i) \<and>
      end_of (scheduled dur s tms ! i) = fst (?ds ! i) + duration_of dur (snd (?ds ! i))"
    if "i < length ?ds" for i
    unfolding eq using that
    by (simp add: nth_enumerate_eq start_of_def end_of_def split: prod.splits)
  show ?thesis
  proof (intro conjI allI impI)
    show "map start_of (scheduled dur s tms) = map fst ?ds" by (rule st)
  next
    fix i
    assume a: "Suc i < length ?ds \<and> fst (?ds ! i) \<le> fst (?ds ! Suc i) \<and>
      0 < duration_of dur (snd (?ds ! Suc i))"
    then have "i < length ?ds" by simp
    with a nth [of i] nth [of "Suc i"]
    show "overlap (scheduled dur s tms ! i) (scheduled dur s tms ! Suc i) =
        (fst (?ds ! Suc i) < end_of (scheduled dur s tms ! i))"
      by (auto simp: overlap_def)
  qed
qed

theorem chunks_start_on_arrival_witness:
  "map start_of (scheduled two_seconds active_state
      [(0, audio_message ''AAAA''), (3, audio_message ''AAAA'')]) = [0, 3] \<and>
   \<not> overlap
      (scheduled two_seconds active_state
        [(0, audio_message ''AAAA''), (3, audio_message ''AAAA'')] ! 0)
      (scheduled two_seconds active_state
        [(0, audio_message ''AAAA''), (3, audio_message ''AAAA'')] ! 1)"
proof -
  let ?tms = "[(0::real, audio_message ''AAAA''), (3, audio_message ''AAAA'')]"
  have c: "audioContextRef active_state \<noteq> None" by (simp add: active_state_eq)
  have a: "list_all (\<lambda>(now, msg). has_audio msg) ?tms"
    by (simp add: has_audio_def audio_of_def audio_message_def)
  have d: "decoded two_seconds ?tms = ?tms"
    by (simp add: decoded_def two_seconds_def)
  have u: "duration_of two_seconds (audio_message ''AAAA'') = 2"
    by (simp add: duration_of_def two_seconds_def)
  note t = chunks_start_on_arrival [OF c a, of two_seconds]
  have e: "end_of (scheduled two_seconds active_state ?tms ! 0) = 2"
    by (simp add: scheduled_def messages_def active_state_eq session_defs end_of_def)
  from t e show ?thesis by (simp add: d u)
qed

lemma two_chunks_eq: "two_chunks = [(0, 0, 2), (1, 1, 2)]"
  by (simp add: two_chunks_def session_defs)

text \<open>
  C1, as the claim states it, fails: the second chunk arrives at time 1, while the first
  plays until time 2; it is started at 1, not at 2, and the two intervals overlap.
\<close>

theorem second_chunk_overlaps:
  "start_of (two_chunks ! 1) \<noteq> max 1 (end_of (two_chunks ! 0)) \<and>
   overlap (two_chunks ! 0) (two_chunks ! 1)"
  by (simp add: two_chunks_eq start_of_def end_of_def overlap_def)

section \<open>Closing a session\<close>

lemma sum_squares_ones:
  "foldl (\<lambda>sum x. sum + x * x) a (replicate n (1::real)) = a + real n"
  by (induction n arbitrary: a) auto

lemma volume_full_scale: "volume_of (replicate 4096 1) = Num 1"
  by (simp add: volume_of_def sum_squares_ones)

text \<open>
  C3, as the code has it. \<open>stopLiveSession\<close>, which is also the transport's \<open>onclose\<close>
  and \<open>onerror\<close>, stops every playback node of the set and empties the set, sets
  \<open>isLiveActive\<close> and the speaking flag to false and empties both transcript buffers. It
  leaves the volume and the microphone streams as they were.
\<close>

theorem stopLiveSession_effect:
  "audioSourcesRef (stopLiveSession s) = [] \<and>
   stopped (stopLiveSession s) = stopped s @ audioSourcesRef s \<and>
   isLiveActive (stopLiveSession s) = False \<and>
   isModelSpeaking (stopLiveSession s) = False \<and>
   transcriptions (stopLiveSession s) = no_transcripts \<and>
   userVolume (stopLiveSession s) = userVolume s \<and>
   micStreams (stopLiveSession s) = micStreams s"
  by (simp add: stopLiveSession_def no_transcripts_def Let_def split: option.splits)

text \<open>
  C3, as the claim states it, fails: after a transport error in an active session whose
  last capture block had volume 1, the volume is still 1 and the microphone stream is
  still held.
\<close>

theorem volume_survives_error:
  "userVolume after_error \<noteq> Num 0 \<and> micStreams after_error = 1"
  by (simp add: after_error_def session_defs volume_full_scale)

text \<open>
  C4. \<open>stopLiveSession\<close> is idempotent: a second call in a row changes nothing, and on
  the idle initial state the first call changes nothing either. The function has no
  failing branch (the only call in it that may throw, \<open>s.stop()\<close>, is inside a
  \<open>try\<close> with an empty \<open>catch\<close>).
\<close>

theorem stopLiveSession_idempotent:
  "stopLiveSession (stopLiveSession s) = stopLiveSession s \<and>
   stopLiveSession init_state = init_state"
  by (simp add: stopLiveSession_def init_state_def Let_def split: option.splits)

section \<open>Starting a session\<close>

text \<open>
  C5, as the code has it. \<open>startLiveSession\<close> has no guard on the session state: its
  promise is always fulfilled, and when the microphone is available and the playback
  context can be resumed it acquires one more microphone stream and opens one more
  transport connection, whatever the state, leaving everything else but the playback
  context as it was. Only the toggle protects an active session: with \<open>isLiveActive\<close>
  true it calls \<open>stopLiveSession\<close>.
\<close>

theorem startLiveSession_unguarded:
  "fst (startLiveSession e s) = Fulfilled \<and>
   (micOk e \<and> resumeOk e \<longrightarrow>
      snd (startLiveSession e s) =
        s\<lparr> audioContextRef := Some Running,
           micStreams := Suc (micStreams s),
           connections := Suc (connections s) \<rparr>) \<and>
   (isLiveActive s \<longrightarrow> onToggleLive e s = (Fulfilled, stopLiveSession s))"
proof (intro conjI impI)
  show "fst (startLiveSession e s) = Fulfilled"
    by (simp add: startLiveSession_def catch_error_def Let_def)
next
  assume "micOk e \<and> resumeOk e"
  then show "snd (startLiveSession e s) =
      s\<lparr> audioContextRef := Some Running, micStreams := Suc (micStreams s),
         connections := Suc (connections s) \<rparr>"
    by (cases "audioContextRef s"; cases "newContextState e"; cases "the (audioContextRef s)")
      (simp_all add: startLiveSession_def Let_def)
next
  assume "isLiveActive s"
  then show "onToggleLive e s = (Fulfilled, stopLiveSession s)"
    by (simp add: onToggleLive_def)
qed

theorem startLiveSession_unguarded_witness:
  "micOk mic_env \<and> resumeOk mic_env \<and> isLiveActive active_state \<and>
   fst (startLiveSession mic_env active_state) = Fulfilled \<and>
   connections (snd (startLiveSession mic_env active_state)) = 2 \<and>
   micStreams (snd (startLiveSession mic_env active_state)) = 2 \<and>
   onToggleLive mic_env active_state = (Fulfilled, stopLiveSession active_state)"
proof -
  have h: "micOk mic_env \<and> resumeOk mic_env" by (simp add: mic_env_def)
  have a: "isLiveActive active_state \<and> connections active_state = 1 \<and>
      micStreams active_state = 1"
    by (simp add: active_state_eq init_state_def)
  from startLiveSession_unguarded [of mic_env active_state] h a show ?thesis by simp
qed

text \<open>
  C5, as the claim states it, fails: a call in the active state, and a call in the
  connecting state, is not rejected and opens a second connection.
\<close>

theorem second_start_accepted:
  "fst (startLiveSession mic_env active_state) = Fulfilled \<and>
   snd (startLiveSession mic_env active_state) \<noteq> active_state \<and>
   connections (snd (startLiveSession mic_env active_state)) = 2 \<and>
   fst (startLiveSession mic_env connecting_state) = Fulfilled \<and>
   connections (snd (startLiveSession mic_env connecting_state)) = 2"
  by (simp add: active_state_eq connecting_state_eq session_defs)

text \<open>
  C6, as the code has it. When \<open>getUserMedia\<close> fails, the error is caught inside
  \<open>startLiveSession\<close>: it is written to the console, \<open>isLiveActive\<close> is set to false and
  the promise is fulfilled, so the caller is told nothing. No microphone stream is held
  and no connection is opened (so no \<open>onopen\<close> can follow); but for the playback
  context, the console and \<open>isLiveActive\<close>, the state is as before, and an idle
  component stays idle.
\<close>

theorem capture_failure_caught:
  "\<not> micOk e \<Longrightarrow> resumeOk e \<Longrightarrow>
   fst (startLiveSession e s) = Fulfilled \<and>
   console (snd (startLiveSession e s)) = console s @ [GetUserMediaError] \<and>
   isLiveActive (snd (startLiveSession e s)) = False \<and>
   micStreams (snd (startLiveSession e s)) = micStreams s \<and>
   connections (snd (startLiveSession e s)) = connections s \<and>
   (snd (startLiveSession e s))
     \<lparr> audioContextRef := audioContextRef s, console := console s,
       isLiveActive := isLiveActive s \<rparr> = s"
  by (auto simp: startLiveSession_def catch_error_def Let_def
      split: option.splits context_state.splits)

theorem capture_failure_caught_witness:
  "\<not> micOk no_mic_env \<and> resumeOk no_mic_env \<and>
   fst (startLiveSession no_mic_env init_state) = Fulfilled \<and>
   console (snd (startLiveSession no_mic_env init_state)) = [GetUserMediaError] \<and>
   isLiveActive (snd (startLiveSession no_mic_env init_state)) = False \<and>
   connections (snd (startLiveSession no_mic_env init_state)) = 0"
proof -
  have h: "\<not> micOk no_mic_env" "resumeOk no_mic_env" by (simp_all add: no_mic_env_def)
  from capture_failure_caught [OF h, of init_state] h show ?thesis
    by (simp add: init_state_def)
qed

text \<open>
  C6, as the claim states it, fails: without a microphone the call is not rejected with
  the capture error; its promise is fulfilled.
\<close>

theorem capture_failure_not_reported:
  "fst (startLiveSession no_mic_env init_state) \<noteq> Rejected GetUserMediaError"
  by (simp add: session_defs)

section \<open>Transcripts\<close>

text \<open>
  C8, as the code has it. The handler of an inbound message replaces the input buffer by
  the text of the message's input transcription, if it has one, and appends the text of
  its output transcription, if it has one, to the output buffer, in every state: at
  once when the message has no audio payload to play, and, when it has one, as soon as
  that payload is decoded (until then the buffers are as they were). Resuming a handler
  never removes text from the output buffer. \<open>startLiveSession\<close>, \<open>onopen\<close>, the end of
  a playback node and a capture block leave both buffers as they are; \<open>stopLiveSession\<close>
  empties both. So the output buffer only grows between two stops, and it is reset when
  a session is stopped, not when one is started.
\<close>

theorem transcripts_updated:
  "(\<not> (has_audio msg \<and> audioContextRef s \<noteq> None) \<longrightarrow>
      transcriptions (onmessage s msg) =
        \<lparr> inputText =
            (case input_of msg of
               None \<Rightarrow> inputText (transcriptions s)
             | Some t \<Rightarrow> transcript_text t),
          outputText =
            outputText (transcriptions s) @
            (case output_of msg of None \<Rightarrow> [] | Some t \<Rightarrow> transcript_text t) \<rparr>) \<and>
   (has_audio msg \<and> audioContextRef s \<noteq> None \<longrightarrow>
      transcriptions (onmessage s msg) = transcriptions s \<and>
      decoding (onmessage s msg) = decoding s @ [msg]) \<and>
   (i < length (decoding s) \<and> audioContextRef s \<noteq> None \<and>
    dur (audio_string (decoding s ! i)) \<noteq> None \<longrightarrow>
      transcriptions (onmessage_resumed dur i now s) =
        \<lparr> inputText =
            (case input_of (decoding s ! i) of
               None \<Rightarrow> inputText (transcriptions s)
             | Some t \<Rightarrow> transcript_text t),
          outputText =
            outputText (transcriptions s) @
            (case output_of (decoding s ! i) of
               None \<Rightarrow> []
             | Some t \<Rightarrow> transcript_text t) \<rparr>) \<and>
   (\<exists>t. outputText (transcriptions (onmessage_resumed dur i now s)) =
      outputText (transcriptions s) @ t) \<and>
   transcriptions (snd (startLiveSession e s)) = transcriptions s \<and>
   transcriptions (onopen s) = transcriptions s \<and>
   transcriptions (onended node s) = transcriptions s \<and>
   transcriptions (fst (onaudioprocess xs s)) = transcriptions s \<and>
   transcriptions (stopLiveSession s) = no_transcripts"
proof (intro conjI impI)
  assume "\<not> (has_audio msg \<and> audioContextRef s \<noteq> None)"
  then show "transcriptions (onmessage s msg) =
      \<lparr> inputText =
          (case input_of msg of
             None \<Rightarrow> inputText (transcriptions s)
           | Some t \<Rightarrow> transcript_text t),
        outputText =
          outputText (transcriptions s) @
          (case output_of msg of None \<Rightarrow> [] | Some t \<Rightarrow> transcript_text t) \<rparr>"
    by (auto simp: onmessage_def transcript_updates_def has_audio_def set_input_def
        add_output_def Let_def split: option.splits)
next
  assume "has_audio msg \<and> audioContextRef s \<noteq> None"
  then show "transcriptions (onmessage s msg) = transcriptions s"
    and "decoding (onmessage s msg) = decoding s @ [msg]"
    by (auto simp: onmessage_def has_audio_def split: option.splits)
next
  assume "i < length (decoding s) \<and> audioContextRef s \<noteq> None \<and>
    dur (audio_string (decoding s ! i)) \<noteq> None"
  then show "transcriptions (onmessage_resumed dur i now s) =
      \<lparr> inputText =
          (case input_of (decoding s ! i) of
             None \<Rightarrow> inputText (transcriptions s)
           | Some t \<Rightarrow> transcript_text t),
        outputText =
          outputText (transcriptions s) @
          (case output_of (decoding s ! i) of
             None \<Rightarrow> []
           | Some t \<Rightarrow> transcript_text t) \<rparr>"
    by (auto simp: onmessage_resumed_def transcript_updates_def play_audio_def
        set_input_def add_output_def Let_def split: option.splits)
next
  show "\<exists>t. outputText (transcriptions (onmessage_resumed dur i now s)) =
      outputText (transcriptions s) @ t"
    by (auto simp: onmessage_resumed_def transcript_updates_def play_audio_def
        set_input_def add_output_def Let_def split: option.splits)
next
  show "transcriptions (snd (startLiveSession e s)) = transcriptions s"
    by (simp add: startLiveSession_def catch_error_def Let_def)
next
  show "transcriptions (onopen s) = transcriptions s"
    by (simp add: onopen_def)
next
  show "transcriptions (onended node s) = transcriptions s"
    by (simp add: onended_def Let_def)
next
  show "transcriptions (fst (onaudioprocess xs s)) = transcriptions s"
    by (simp add: onaudioprocess_def)
next
  show "transcriptions (stopLiveSession s) = no_transcripts"
    by (simp add: stopLiveSession_def no_transcripts_def Let_def split: option.splits)
qed

theorem transcripts_updated_witness:
  "transcriptions (onmessage active_state (output_message ''hi'')) =
     \<lparr> inputText = [], outputText = ''hi'' \<rparr> \<and>
   transcriptions (onmessage active_state (spoken_message ''AAAA'' ''hi'')) =
     no_transcripts \<and>
   transcriptions
     (onmessage_resumed two_seconds 0 0
        (onmessage active_state (spoken_message ''AAAA'' ''hi''))) =
     \<lparr> inputText = [], outputText = ''hi'' \<rparr>"
proof -
  let ?m = "spoken_message ''AAAA'' ''hi''"
  let ?s = "onmessage active_state ?m"
  have a: "\<not> (has_audio (output_message ''hi'') \<and> audioContextRef active_state \<noteq> None)"
    by (simp add: has_audio_def audio_of_def output_message_def)
  have b: "has_audio ?m \<and> audioContextRef active_state \<noteq> None"
    by (simp add: has_audio_def audio_of_def spoken_message_def active_state_eq)
  have t: "transcriptions active_state = no_transcripts"
    by (simp add: active_state_eq init_state_def no_transcripts_def)
  have o: "output_of (output_message ''hi'') = Some \<lparr> transcript_text = ''hi'' \<rparr>"
    "input_of (output_message ''hi'') = None"
    "output_of ?m = Some \<lparr> transcript_text = ''hi'' \<rparr>" "input_of ?m = None"
    by (simp_all add: output_of_def input_of_def output_message_def spoken_message_def)
  have d: "decoding active_state = []" by (simp add: active_state_eq init_state_def)
  note u = transcripts_updated [of "output_message ''hi''" active_state]
  note v = transcripts_updated [of ?m active_state]
  from v b d have s: "transcriptions ?s = no_transcripts" "decoding ?s = [?m]"
    by (simp_all add: t)
  have c: "audioContextRef ?s \<noteq> None"
    by (simp add: onmessage_def audio_of_def spoken_message_def active_state_eq)
  note w = transcripts_updated [of _ ?s 0 two_seconds 0]
  from w s c have r: "transcriptions (onmessage_resumed two_seconds 0 0 ?s) =
      \<lparr> inputText = [], outputText = ''hi'' \<rparr>"
    by (simp add: o two_seconds_def no_transcripts_def)
  from u a have "transcriptions (onmessage active_state (output_message ''hi'')) =
      \<lparr> inputText = [], outputText = ''hi'' \<rparr>"
    by (simp add: o t no_transcripts_def)
  with s r show ?thesis by simp
qed

text \<open>
  C8, as the claim states it, fails: a session is closed from the overlay, an output
  transcription still arrives, and the next session starts with that text in the output
  buffer.
\<close>

theorem output_not_reset_on_start:
  "outputText (transcriptions restarted) = ''late'' \<and>
   outputText (transcriptions restarted) \<noteq> [] \<and>
   connections restarted = 2"
  by (simp add: restarted_def session_defs)

section \<open>Conversion of capture samples\<close>

lemma sint_small:
  "- 32768 \<le> k \<Longrightarrow> k < 32768 \<Longrightarrow> sint (word_of_int k :: int16) = k"
  by (simp add: int_word_sint)

lemma truncate_bounds:
  assumes "- 1 \<le> x" "x < 1"
  shows "- 32768 \<le> js_truncate (x * 32768) \<and> js_truncate (x * 32768) < 32768"
proof (cases "x < 0")
  case True
  then have "js_truncate (x * 32768) = \<lceil>x * 32768\<rceil>"
    by (simp add: js_truncate_def mult_less_0_iff)
  moreover from assms have "- 32768 \<le> x * 32768" by simp
  then have "- 32768 \<le> \<lceil>x * 32768\<rceil>" by (simp add: le_ceiling_iff)
  moreover from True have "x * 32768 \<le> 0" by simp
  then have "\<lceil>x * 32768\<rceil> \<le> 0" by (simp add: ceiling_le_iff)
  ultimately show ?thesis by simp
next
  case False
  then have "js_truncate (x * 32768) = \<lfloor>x * 32768\<rfloor>"
    by (simp add: js_truncate_def mult_less_0_iff)
  moreover from False have "0 \<le> \<lfloor>x * 32768\<rfloor>" by simp
  moreover from assms have "x * 32768 < 32768" by simp
  then have "\<lfloor>x * 32768\<rfloor> < 32768" by (simp add: floor_less_iff)
  ultimately show ?thesis by simp
qed

text \<open>
  C7. For a sample \<open>x\<close> between -1 and 1, the int16 stored is \<open>x * 32768\<close> with its
  fraction dropped towards zero (the floor for \<open>x \<ge> 0\<close>, the ceiling for \<open>x < 0\<close>), not
  rounded. Nothing is clamped: at \<open>x = 1\<close> the product 32768 is one step above the
  largest int16, and the value stored is -32768.
\<close>

theorem sample_truncated_unclamped:
  assumes "- 1 \<le> x" and "x \<le> 1"
  shows "sint (sample_to_int16 x) =
    (if x = 1 then - 32768 else if x < 0 then \<lceil>x * 32768\<rceil> else \<lfloor>x * 32768\<rfloor>)"
proof (cases "x = 1")
  case True
  then show ?thesis by (simp add: sample_to_int16_def ToInt16_def js_truncate_def)
next
  case False
  with assms have lt: "x < 1" by simp
  from truncate_bounds [OF assms(1) lt]
  have "sint (word_of_int (js_truncate (x * 32768)) :: int16) = js_truncate (x * 32768)"
    by (simp add: sint_small)
  with False show ?thesis
    by (simp add: sample_to_int16_def ToInt16_def js_truncate_def mult_less_0_iff)
qed

theorem sample_truncated_unclamped_witness:
  "sint (sample_to_int16 1) = - 32768 \<and>
   sint (sample_to_int16 (3 / 65536)) = 1 \<and>
   sint (sample_to_int16 (- 3 / 65536)) = - 1"
  using sample_truncated_unclamped [of 1]
    sample_truncated_unclamped [of "3 / 65536"]
    sample_truncated_unclamped [of "- 3 / 65536"]
  by simp

section \<open>Round trip of the codec\<close>

lemma cat_split:
  "word_cat (ucast (drop_bit 8 w) :: byte) (ucast w :: byte) = (w :: int16)"
  by (rule bit_word_eqI) (auto simp: bit_simps)

lemma split_cat_lo: "(ucast (word_cat (hi :: byte) (lo :: byte) :: int16) :: byte) = lo"
  by (rule bit_word_eqI) (auto simp: bit_simps)

lemma split_cat_hi:
  "(ucast (drop_bit 8 (word_cat (hi :: byte) (lo :: byte) :: int16)) :: byte) = hi"
  by (rule bit_word_eqI) (auto simp: bit_simps)

lemma bytes_of_sample: "bytes_of be (sample_of be b0 b1) = [b0, b1]"
  by (simp add: bytes_of_def sample_of_def split_cat_lo split_cat_hi Let_def)

lemma encode_pairs: "even (length bs) \<Longrightarrow> encode be (pairs be bs) = bs"
  by (induction be bs rule: pairs.induct) (simp_all add: encode_def bytes_of_sample)

lemma pairs_encode: "pairs be (encode be ws) = ws"
  by (induction ws) (auto simp: encode_def bytes_of_def Let_def sample_of_def cat_split)

lemma length_encode: "length (encode be ws) = 2 * length ws"
  by (induction ws) (auto simp: encode_def bytes_of_def Let_def)

text \<open>
  C9. For a byte sequence of even length, \<open>decode\<close> succeeds and \<open>encode\<close> of its result
  is the byte sequence again; and \<open>decode\<close> of the encoding of any sample sequence is
  that sequence. This holds for either byte order.
\<close>

theorem codec_round_trip:
  "even (length bs) \<Longrightarrow>
   (\<exists>ws. decode be bs = Inr ws \<and> encode be ws = bs) \<and>
   decode be (encode be ws') = Inr ws'"
  by (simp add: decode_def encode_pairs pairs_encode length_encode)

theorem codec_round_trip_witness:
  "even (length [0x34, 0x12, 0xFF, 0x7F :: byte]) \<and>
   decode False [0x34, 0x12, 0xFF, 0x7F] = Inr [0x1234, 0x7FFF] \<and>
   encode False [0x1234, 0x7FFF] = [0x34, 0x12, 0xFF, 0x7F]"
proof -
  have d: "decode False [0x34, 0x12, 0xFF, 0x7F] = Inr [0x1234, 0x7FFF]"
    by (simp add: decode_def sample_of_def word_cat_eq)
  from codec_round_trip [of "[0x34, 0x12, 0xFF, 0x7F]" False "[]"] d show ?thesis
    by auto
qed

end
